theory Spec2Isabelle
  imports Complex_Main "HOL-Library.AList"
begin

section \<open>JavaScript values and primitives\<close>

text \<open>
  The cube of \<^verbatim>\<open>cubico.js\<close> stores JavaScript values in arrays, and its methods take
  arrays and functions from the caller and write into them. Arrays are objects held by
  reference: a value of the embedding is a number, a string, a boolean, \<^verbatim>\<open>null\<close>,
  \<^verbatim>\<open>undefined\<close> (what an out-of-range array read gives), the reference of an array, or a
  function. Other objects are not values of the embedding.

  A number is a real or one of the three special doubles; arithmetic on finite numbers
  is exact (the rounding, the overflow and the sign of zero of IEEE doubles are not
  represented).

  A function is one of the closures that the library builds, given by what it captures,
  or a function of the caller, given by a number. Two closures that capture the same
  index and value are the same value here; a comparison of two functions by \<^verbatim>\<open>===\<close>
  cannot tell such closures apart as JavaScript does.
\<close>

type_synonym addr = nat

datatype jsnum = Fin real | PosInf | NegInf | NaN

datatype val = Num jsnum | Str string | Bool bool | Null | Undefined | Ref addr | Fun closure
and closure =
    EqualTo int val
  | DistinctTo int val
  | LessThan int val
  | LessOrEqualThan int val
  | GreaterThan int val
  | GreaterOrEqualThan int val
  | SumOf int
  | CountAll
  | CountOf int
  | CountUniqueOf int
  | AverageOf int
  | UserFunction nat

subsection \<open>Plain objects used as hash maps\<close>

text \<open>
  \<^verbatim>\<open>dimensionMap\<close>, \<^verbatim>\<open>valuesMap\<close> and \<^verbatim>\<open>storageMap\<close> are plain objects \<^verbatim>\<open>{}\<close>: their own
  properties, in insertion order. Two keys behave specially on such an object.
  Assigning to \<^verbatim>\<open>"__proto__"\<close> sets the prototype and creates no own property. An own
  property named \<^verbatim>\<open>"hasOwnProperty"\<close> shadows the inherited method, and as none of the
  values stored here is a function, every later call \<^verbatim>\<open>obj.hasOwnProperty(k)\<close> throws
  a \<^verbatim>\<open>TypeError\<close> (the result \<open>None\<close>).
\<close>

type_synonym 'a jsobj = "(string \<times> 'a) list"

definition hasOwnProperty :: "'a jsobj \<Rightarrow> string \<Rightarrow> bool option" where
  "hasOwnProperty m k =
     (if map_of m ''hasOwnProperty'' \<noteq> None then None else Some (map_of m k \<noteq> None))"

definition objSet :: "'a jsobj \<Rightarrow> string \<Rightarrow> 'a \<Rightarrow> 'a jsobj" where
  "objSet m k v = (if k = ''__proto__'' then m else AList.update k v m)"

definition objGet :: "'a jsobj \<Rightarrow> string \<Rightarrow> 'a option" where
  "objGet m k = (if k = ''__proto__'' then None else map_of m k)"

subsection \<open>Primitives of the language\<close>

text \<open>
  The object that carries the state of one measure within one group of an aggregation.
  The built-in aggregations use the properties \<^verbatim>\<open>runningTotal\<close>, \<^verbatim>\<open>count\<close>, \<^verbatim>\<open>countUnique\<close> and
  \<^verbatim>\<open>valuesMap\<close>; \<open>None\<close> is a property not yet set. A function of the caller keeps its
  properties in \<open>custom\<close>. The fields \<^verbatim>\<open>countUnique\<close> and \<^verbatim>\<open>valuesMap\<close> carry the suffix \<open>S\<close> here.
\<close>

record statics =
  runningTotal :: "jsnum option"
  count :: "jsnum option"
  countUniqueS :: "jsnum option"
  valuesMapS :: "bool jsobj"
  custom :: "val jsobj"

text \<open>
  The conversions between numbers and strings, the strings of arrays and functions and
  the functions of the caller are not code of the repository. They are parameters of
  every definition that needs them. \<open>numToString\<close> is \<^verbatim>\<open>Number.prototype.toString\<close> on finite
  numbers, \<open>stringToNumber\<close> is the \<^verbatim>\<open>ToNumber\<close> coercion of a string, \<open>parseFloatStr\<close> is
  \<^verbatim>\<open>parseFloat\<close> on a string and \<open>mathRandom k\<close> is the result of the \<open>k\<close>-th call of
  \<^verbatim>\<open>Math.random\<close>. \<open>arrayToString\<close> is \<^verbatim>\<open>Array.prototype.toString\<close> on the array at an
  address, given the contents of all arrays, and \<open>functionToString\<close> is the source text of a
  function.

  The caller's function number \<open>k\<close> has \<open>userArity k\<close> declared parameters. Called on a
  record as a predicate, it returns a value whose truth is \<open>userPredicate k\<close>; called on a
  record and a state object as an aggregation, it returns a value and leaves the state
  object as \<open>userAggregation k\<close> says. Both read the arrays and write nothing else: the
  functions of the caller are taken to be free of other effects and not to throw.
\<close>

record env =
  numToString :: "real \<Rightarrow> string"
  stringToNumber :: "string \<Rightarrow> jsnum"
  parseFloatStr :: "string \<Rightarrow> jsnum"
  mathRandom :: "nat \<Rightarrow> real"
  arrayToString :: "val list list \<Rightarrow> addr \<Rightarrow> string"
  functionToString :: "closure \<Rightarrow> string"
  userArity :: "nat \<Rightarrow> nat"
  userPredicate :: "nat \<Rightarrow> val list list \<Rightarrow> val \<Rightarrow> bool"
  userAggregation :: "nat \<Rightarrow> val list list \<Rightarrow> val \<Rightarrow> statics \<Rightarrow> val \<times> statics"

fun jsnumToString :: "env \<Rightarrow> jsnum \<Rightarrow> string" where
  "jsnumToString E (Fin x) = numToString E x"
| "jsnumToString E PosInf = ''Infinity''"
| "jsnumToString E NegInf = ''-Infinity''"
| "jsnumToString E NaN = ''NaN''"

text \<open>
  \<^verbatim>\<open>ToString\<close>, as a property key, in a concatenation or through \<^verbatim>\<open>value.toString()\<close>.
  \<open>A\<close> is the contents of the arrays when the conversion is made.
\<close>

fun toString :: "env \<Rightarrow> val list list \<Rightarrow> val \<Rightarrow> string" where
  "toString E A (Num x) = jsnumToString E x"
| "toString E A (Str s) = s"
| "toString E A (Bool b) = (if b then ''true'' else ''false'')"
| "toString E A Null = ''null''"
| "toString E A Undefined = ''undefined''"
| "toString E A (Ref a) = arrayToString E A a"
| "toString E A (Fun f) = functionToString E f"

text \<open>\<^verbatim>\<open>ToPrimitive\<close>: an array or a function becomes its string.\<close>

fun toPrimitive :: "env \<Rightarrow> val list list \<Rightarrow> val \<Rightarrow> val" where
  "toPrimitive E A (Ref a) = Str (arrayToString E A a)"
| "toPrimitive E A (Fun f) = Str (functionToString E f)"
| "toPrimitive E A v = v"

fun toNumber :: "env \<Rightarrow> val list list \<Rightarrow> val \<Rightarrow> jsnum" where
  "toNumber E A (Num x) = x"
| "toNumber E A (Str s) = stringToNumber E s"
| "toNumber E A (Bool b) = (if b then Fin 1 else Fin 0)"
| "toNumber E A Null = Fin 0"
| "toNumber E A Undefined = NaN"
| "toNumber E A (Ref a) = stringToNumber E (arrayToString E A a)"
| "toNumber E A (Fun f) = stringToNumber E (functionToString E f)"

fun js_neg :: "jsnum \<Rightarrow> jsnum" where
  "js_neg (Fin x) = Fin (- x)"
| "js_neg PosInf = NegInf"
| "js_neg NegInf = PosInf"
| "js_neg NaN = NaN"

fun js_add :: "jsnum \<Rightarrow> jsnum \<Rightarrow> jsnum" where
  "js_add (Fin x) (Fin y) = Fin (x + y)"
| "js_add NaN b = NaN"
| "js_add a NaN = NaN"
| "js_add PosInf NegInf = NaN"
| "js_add NegInf PosInf = NaN"
| "js_add PosInf b = PosInf"
| "js_add NegInf b = NegInf"
| "js_add a PosInf = PosInf"
| "js_add a NegInf = NegInf"

definition js_sub :: "jsnum \<Rightarrow> jsnum \<Rightarrow> jsnum" where
  "js_sub a b = js_add a (js_neg b)"

fun js_sign :: "jsnum \<Rightarrow> int" where
  "js_sign (Fin x) = (if x < 0 then - 1 else if x = 0 then 0 else 1)"
| "js_sign PosInf = 1"
| "js_sign NegInf = - 1"
| "js_sign NaN = 0"

fun js_mul :: "jsnum \<Rightarrow> jsnum \<Rightarrow> jsnum" where
  "js_mul (Fin x) (Fin y) = Fin (x * y)"
| "js_mul NaN b = NaN"
| "js_mul a NaN = NaN"
| "js_mul a b =
     (if js_sign a * js_sign b = 0 then NaN
      else if js_sign a * js_sign b > 0 then PosInf else NegInf)"

text \<open>\<^verbatim>\<open>a / b\<close>; a zero divisor counts as positive zero.\<close>

fun js_div :: "jsnum \<Rightarrow> jsnum \<Rightarrow> jsnum" where
  "js_div (Fin x) (Fin y) =
     (if y \<noteq> 0 then Fin (x / y)
      else if x = 0 then NaN else if x > 0 then PosInf else NegInf)"
| "js_div NaN b = NaN"
| "js_div a NaN = NaN"
| "js_div (Fin x) b = Fin 0"
| "js_div a (Fin y) = (if (y < 0) = (a = PosInf) then NegInf else PosInf)"
| "js_div a b = NaN"

text \<open>\<^verbatim>\<open>Math.pow(x, 2)\<close>, \<^verbatim>\<open>Math.sqrt\<close>, \<^verbatim>\<open>Math.max\<close> and \<^verbatim>\<open>Math.min\<close> of two arguments.\<close>

definition js_pow2 :: "jsnum \<Rightarrow> jsnum" where
  "js_pow2 a = js_mul a a"

fun js_sqrt :: "jsnum \<Rightarrow> jsnum" where
  "js_sqrt (Fin x) = (if x < 0 then NaN else Fin (sqrt x))"
| "js_sqrt PosInf = PosInf"
| "js_sqrt NegInf = NaN"
| "js_sqrt NaN = NaN"

fun js_lt :: "jsnum \<Rightarrow> jsnum \<Rightarrow> bool" where
  "js_lt (Fin x) (Fin y) = (x < y)"
| "js_lt NaN b = False"
| "js_lt a NaN = False"
| "js_lt a NegInf = False"
| "js_lt PosInf b = False"
| "js_lt a b = True"

definition js_max :: "jsnum \<Rightarrow> jsnum \<Rightarrow> jsnum" where
  "js_max a b = (if a = NaN \<or> b = NaN then NaN else if js_lt a b then b else a)"

definition js_min :: "jsnum \<Rightarrow> jsnum \<Rightarrow> jsnum" where
  "js_min a b = (if a = NaN \<or> b = NaN then NaN else if js_lt b a then b else a)"

text \<open>
  Strict equality \<^verbatim>\<open>===\<close>: same type and same value, \<^verbatim>\<open>NaN\<close> equals nothing, and two
  arrays are equal when they are the same array.
\<close>

fun strictEquals :: "val \<Rightarrow> val \<Rightarrow> bool" where
  "strictEquals (Num a) (Num b) = (a = b \<and> a \<noteq> NaN)"
| "strictEquals (Str s) (Str t) = (s = t)"
| "strictEquals (Bool p) (Bool q) = (p = q)"
| "strictEquals Null Null = True"
| "strictEquals Undefined Undefined = True"
| "strictEquals (Ref a) (Ref b) = (a = b)"
| "strictEquals (Fun f) (Fun g) = (f = g)"
| "strictEquals a b = False"

text \<open>
  Loose equality \<^verbatim>\<open>==\<close>. \<^verbatim>\<open>null\<close> and \<^verbatim>\<open>undefined\<close> equal each other and nothing else; two
  objects are compared as references; otherwise an object is converted to its string
  and a boolean to a number, and a number is compared with a string as numbers.
\<close>

fun isObject :: "val \<Rightarrow> bool" where
  "isObject (Ref a) = True"
| "isObject (Fun f) = True"
| "isObject v = False"

fun isNullish :: "val \<Rightarrow> bool" where
  "isNullish Null = True"
| "isNullish Undefined = True"
| "isNullish v = False"

fun boolToNumber :: "val \<Rightarrow> val" where
  "boolToNumber (Bool p) = Num (if p then Fin 1 else Fin 0)"
| "boolToNumber v = v"

fun numberOrStringEquals :: "env \<Rightarrow> val \<Rightarrow> val \<Rightarrow> bool" where
  "numberOrStringEquals E (Num a) (Str t) = strictEquals (Num a) (Num (stringToNumber E t))"
| "numberOrStringEquals E (Str s) (Num b) = strictEquals (Num (stringToNumber E s)) (Num b)"
| "numberOrStringEquals E a b = strictEquals a b"

definition primitiveEquals :: "env \<Rightarrow> val \<Rightarrow> val \<Rightarrow> bool" where
  "primitiveEquals E a b = numberOrStringEquals E (boolToNumber a) (boolToNumber b)"

definition looseEquals :: "env \<Rightarrow> val list list \<Rightarrow> val \<Rightarrow> val \<Rightarrow> bool" where
  "looseEquals E A a b =
     (if isNullish a \<or> isNullish b then isNullish a \<and> isNullish b
      else if isObject a \<and> isObject b then strictEquals a b
      else primitiveEquals E (toPrimitive E A a) (toPrimitive E A b))"

text \<open>
  The relational comparison \<^verbatim>\<open>a < b\<close>: both operands are converted to primitives; two
  strings are compared by their code units, anything else as numbers.
\<close>

fun stringLess :: "string \<Rightarrow> string \<Rightarrow> bool" where
  "stringLess [] [] = False"
| "stringLess [] (y # ys) = True"
| "stringLess (x # xs) [] = False"
| "stringLess (x # xs) (y # ys) =
     (if (of_char x :: nat) < of_char y then True
      else if x = y then stringLess xs ys else False)"

fun primitiveLess :: "env \<Rightarrow> val list list \<Rightarrow> val \<Rightarrow> val \<Rightarrow> bool" where
  "primitiveLess E A (Str s) (Str t) = stringLess s t"
| "primitiveLess E A a b = js_lt (toNumber E A a) (toNumber E A b)"

definition jsLess :: "env \<Rightarrow> val list list \<Rightarrow> val \<Rightarrow> val \<Rightarrow> bool" where
  "jsLess E A a b = primitiveLess E A (toPrimitive E A a) (toPrimitive E A b)"

text \<open>\<^verbatim>\<open>a <= b\<close> is \<^verbatim>\<open>!(b < a)\<close> unless the comparison is undefined (a \<^verbatim>\<open>NaN\<close> operand).\<close>

fun primitiveLessEq :: "env \<Rightarrow> val list list \<Rightarrow> val \<Rightarrow> val \<Rightarrow> bool" where
  "primitiveLessEq E A (Str s) (Str t) = (\<not> stringLess t s)"
| "primitiveLessEq E A a b =
     (toNumber E A a \<noteq> NaN \<and> toNumber E A b \<noteq> NaN \<and> \<not> js_lt (toNumber E A b) (toNumber E A a))"

definition jsLessEq :: "env \<Rightarrow> val list list \<Rightarrow> val \<Rightarrow> val \<Rightarrow> bool" where
  "jsLessEq E A a b = primitiveLessEq E A (toPrimitive E A a) (toPrimitive E A b)"

text \<open>\<^verbatim>\<open>x + y\<close>: a string operand, after the conversion to primitives, makes it a concatenation.\<close>

fun primitivePlus :: "env \<Rightarrow> val list list \<Rightarrow> val \<Rightarrow> val \<Rightarrow> val" where
  "primitivePlus E A (Str s) b = Str (s @ toString E A b)"
| "primitivePlus E A a (Str t) = Str (toString E A a @ t)"
| "primitivePlus E A a b = Num (js_add (toNumber E A a) (toNumber E A b))"

definition jsPlus :: "env \<Rightarrow> val list list \<Rightarrow> val \<Rightarrow> val \<Rightarrow> val" where
  "jsPlus E A a b = primitivePlus E A (toPrimitive E A a) (toPrimitive E A b)"

text \<open>Reading an array: an index out of range gives \<^verbatim>\<open>undefined\<close>.\<close>

definition arrayGet :: "val list \<Rightarrow> int \<Rightarrow> val" where
  "arrayGet xs i = (if 0 \<le> i \<and> nat i < length xs then xs ! nat i else Undefined)"

text \<open>
  \<^verbatim>\<open>x[i]\<close> for a value \<open>x\<close> and an integer \<open>i\<close>: the element of an array, the character of a
  string, \<^verbatim>\<open>undefined\<close> on a number, a boolean or a function, and a \<^verbatim>\<open>TypeError\<close> (\<open>None\<close>)
  on \<^verbatim>\<open>null\<close> and \<^verbatim>\<open>undefined\<close>.
\<close>

fun readIndex :: "val list list \<Rightarrow> val \<Rightarrow> int \<Rightarrow> val option" where
  "readIndex A (Ref a) i = Some (arrayGet (A ! a) i)"
| "readIndex A (Str s) i = Some (if 0 \<le> i \<and> nat i < length s then Str [s ! nat i] else Undefined)"
| "readIndex A Null i = None"
| "readIndex A Undefined i = None"
| "readIndex A v i = Some Undefined"

text \<open>
  \<^verbatim>\<open>f.length\<close> of a function is the number of its declared parameters: one for the
  predicates of \<^verbatim>\<open>getFilter\<close>, two for the aggregations.
\<close>

fun arity :: "env \<Rightarrow> closure \<Rightarrow> nat" where
  "arity E (EqualTo i v) = 1"
| "arity E (DistinctTo i v) = 1"
| "arity E (LessThan i v) = 1"
| "arity E (LessOrEqualThan i v) = 1"
| "arity E (GreaterThan i v) = 1"
| "arity E (GreaterOrEqualThan i v) = 1"
| "arity E (UserFunction k) = userArity E k"
| "arity E f = 2"

text \<open>\<^verbatim>\<open>x.length\<close>; a \<^verbatim>\<open>TypeError\<close> (\<open>None\<close>) on \<^verbatim>\<open>null\<close> and \<^verbatim>\<open>undefined\<close>.\<close>

fun lengthOf :: "env \<Rightarrow> val list list \<Rightarrow> val \<Rightarrow> val option" where
  "lengthOf E A (Ref a) = Some (Num (Fin (real (length (A ! a)))))"
| "lengthOf E A (Str s) = Some (Num (Fin (real (length s))))"
| "lengthOf E A (Fun f) = Some (Num (Fin (real (arity E f))))"
| "lengthOf E A Null = None"
| "lengthOf E A Undefined = None"
| "lengthOf E A v = Some Undefined"

section \<open>The data model\<close>

text \<open>
  Arrays and cubes are JavaScript objects held by reference. The heap keeps both; an
  address is a position in the corresponding list, and allocation appends. Every array
  of the program is in \<open>arrays\<close>: the records, the record store of a cube, the lists of its
  value index, and the arrays that the caller passes (criteria, their 3-tuples,
  dimensions to group by, measures and their pairs). So one array can play two of these
  parts at once, as it can in the program.
\<close>

datatype error =
    InvalidDataType
  | DuplicateDimension
  | DimensionalityMismatch bool
  | CriterionNotArray nat
  | CriterionBadFormed nat
  | CriterionUnknownDimension nat
  | CriterionBadOperator nat
  | UnknownComparator
  | UnknownDimension string
  | NotNumeric string
  | UnknownAggregation string
  | TypeError

text \<open>
  \<open>DimensionalityMismatch True\<close> is the message "Record has higher dimensionality than
  expected", \<open>DimensionalityMismatch False\<close> the one with "lower".
\<close>

datatype 'a result = Return 'a | Throw error

definition NUMERIC :: int where "NUMERIC = 1"
definition TEXT :: int where "TEXT = 2"

text \<open>
  \<^verbatim>\<open>CubicoDimension\<close>. The fields \<^verbatim>\<open>countUnique\<close>, \<^verbatim>\<open>stdDev\<close>, \<^verbatim>\<open>max\<close> and \<^verbatim>\<open>min\<close> carry the suffix
  \<open>F\<close> here, as the methods of the cube have the same names. \<open>valuesMap\<close> maps the string
  of a value to the address of the array of the records that hold it.
\<close>

record dimension =
  name :: string
  dataType :: int
  summation :: val
  summationOfSquares :: jsnum
  countUniqueF :: nat
  stdDevF :: "jsnum option"
  maxF :: jsnum
  minF :: jsnum
  valuesMap :: "addr jsobj"
  valuesMapSize :: nat
  index :: int

definition CubicoDimension :: "string \<Rightarrow> int \<Rightarrow> error + dimension" where
  "CubicoDimension nm dt =
     (if dt \<noteq> TEXT \<and> dt \<noteq> NUMERIC then Inl InvalidDataType
      else Inr \<lparr>name = nm, dataType = dt, summation = Num (Fin 0),
                summationOfSquares = Fin 0, countUniqueF = 0, stdDevF = None,
                maxF = NegInf, minF = PosInf, valuesMap = [], valuesMapSize = 0,
                index = - 1\<rparr>)"

text \<open>
  \<^verbatim>\<open>Cubico\<close>. \<open>storage\<close> is the address of the array \<^verbatim>\<open>this.storage\<close>. \<open>dimensionMap\<close> maps a
  name to the dimension object, which is the element of \<open>dimensions\<close> at the stored
  position (both hold the same reference). The array \<^verbatim>\<open>this.dimensions\<close> holds dimension
  objects, which are no values of the embedding, and is kept in the cube. The field
  \<^verbatim>\<open>storageMap\<close> is never used by the code and is left out.
\<close>

record cubico =
  nbrOfDimensions :: nat
  nbrOfRecords :: nat
  storage :: addr
  dimensions :: "dimension list"
  dimensionMap :: "nat jsobj"

record heap =
  cubes :: "cubico list"
  arrays :: "val list list"

text \<open>\<^verbatim>\<open>new Cubico()\<close>, with the address of the new array \<^verbatim>\<open>[]\<close> of its store.\<close>

definition Cubico :: "addr \<Rightarrow> cubico" where
  "Cubico st = \<lparr>nbrOfDimensions = 0, nbrOfRecords = 0, storage = st, dimensions = [],
                dimensionMap = []\<rparr>"

definition newCubico :: "heap \<Rightarrow> addr \<times> heap" where
  "newCubico h =
     (length (cubes h),
      h\<lparr>cubes := cubes h @ [Cubico (length (arrays h))], arrays := arrays h @ [[]]\<rparr>)"

definition newArray :: "heap \<Rightarrow> val list \<Rightarrow> addr \<times> heap" where
  "newArray h xs = (length (arrays h), h\<lparr>arrays := arrays h @ [xs]\<rparr>)"

definition setCube :: "heap \<Rightarrow> addr \<Rightarrow> cubico \<Rightarrow> heap" where
  "setCube h this c = h\<lparr>cubes := (cubes h)[this := c]\<rparr>"

definition setArray :: "heap \<Rightarrow> addr \<Rightarrow> val list \<Rightarrow> heap" where
  "setArray h a xs = h\<lparr>arrays := (arrays h)[a := xs]\<rparr>"

text \<open>\<^verbatim>\<open>array.push(v)\<close> and \<^verbatim>\<open>array[i] = v\<close> for a position \<open>i\<close> that the array has.\<close>

definition push :: "heap \<Rightarrow> addr \<Rightarrow> val \<Rightarrow> heap" where
  "push h a v = setArray h a (arrays h ! a @ [v])"

definition store :: "heap \<Rightarrow> addr \<Rightarrow> nat \<Rightarrow> val \<Rightarrow> heap" where
  "store h a i v = setArray h a ((arrays h ! a)[i := v])"

section \<open>Dimension registry and record store\<close>

text \<open>
  The loop at the end of \<^verbatim>\<open>addDimension\<close>: \<^verbatim>\<open>this.storage[i].push(null)\<close> for \<open>i\<close> below
  \<^verbatim>\<open>nbrOfRecords\<close>. An entry of the store that is no array has no method \<^verbatim>\<open>push\<close>, and the
  call is a \<^verbatim>\<open>TypeError\<close>.
\<close>

fun pushNulls :: "heap \<Rightarrow> addr \<Rightarrow> nat list \<Rightarrow> unit result \<times> heap" where
  "pushNulls h st [] = (Return (), h)"
| "pushNulls h st (i # is) =
     (case arrayGet (arrays h ! st) (int i) of
        Ref a \<Rightarrow> pushNulls (push h a Null) st is
      | v \<Rightarrow> (Throw TypeError, h))"

definition addDimension :: "heap \<Rightarrow> addr \<Rightarrow> string \<Rightarrow> int \<Rightarrow> unit result \<times> heap" where
  "addDimension h this nm dt =
     (let c = cubes h ! this in
      case hasOwnProperty (dimensionMap c) nm of
        None \<Rightarrow> (Throw TypeError, h)
      | Some True \<Rightarrow> (Throw DuplicateDimension, h)
      | Some False \<Rightarrow>
          (case CubicoDimension nm dt of
             Inl e \<Rightarrow> (Throw e, h)
           | Inr d \<Rightarrow>
               let dims = dimensions c @ [d]; n = nbrOfDimensions c in
               if n < length dims then
                 let c' = c\<lparr>dimensions := dims[n := (dims ! n)\<lparr>index := int n\<rparr>],
                             dimensionMap := objSet (dimensionMap c) nm n,
                             nbrOfDimensions := n + 1\<rparr>
                 in pushNulls (setCube h this c') (storage c') [0..<nbrOfRecords c']
               else (Throw TypeError, setCube h this (c\<lparr>dimensions := dims\<rparr>))))"

definition hasDimension :: "heap \<Rightarrow> addr \<Rightarrow> string \<Rightarrow> bool option" where
  "hasDimension h this nm = hasOwnProperty (dimensionMap (cubes h ! this)) nm"

text \<open>
  One round of the loop of \<^verbatim>\<open>accumulateRecordValues\<close>, for the dimension at position \<open>i\<close>
  and a value of the record that is neither \<^verbatim>\<open>null\<close> nor \<^verbatim>\<open>undefined\<close>. \<open>record\<close> is what is
  pushed onto the list of the value index: the reference of the record. A new list of
  the index is a new array. The dimension object keeps what was written to it before an
  error is thrown.
\<close>

definition setDimension :: "heap \<Rightarrow> addr \<Rightarrow> nat \<Rightarrow> dimension \<Rightarrow> heap" where
  "setDimension h this i d =
     setCube h this ((cubes h ! this)\<lparr>dimensions := (dimensions (cubes h ! this))[i := d]\<rparr>)"

definition accumulateValue :: "env \<Rightarrow> heap \<Rightarrow> addr \<Rightarrow> nat \<Rightarrow> val \<Rightarrow> val \<Rightarrow> error option \<times> heap" where
  "accumulateValue E h this i record v =
     (let d = dimensions (cubes h ! this) ! i;
          d1 = d\<lparr>countUniqueF := countUniqueF d + 1\<rparr>;
          key = toString E (arrays h) v
      in case hasOwnProperty (valuesMap d1) key of
           None \<Rightarrow> (Some TypeError, setDimension h this i d1)
         | Some present \<Rightarrow>
             let d2 = (if present then d1
                       else d1\<lparr>valuesMap := objSet (valuesMap d1) key (length (arrays h)),
                               valuesMapSize := valuesMapSize d1 + 1\<rparr>);
                 h1 = (if present then h else snd (newArray h []));
                 h2 = (case objGet (valuesMap d2) key of
                         None \<Rightarrow> h1
                       | Some l \<Rightarrow> push h1 l record);
                 d3 = (if dataType d2 = NUMERIC then
                         d2\<lparr>summation := jsPlus E (arrays h2) (summation d2) v,
                            summationOfSquares :=
                              js_add (summationOfSquares d2) (js_pow2 (toNumber E (arrays h2) v)),
                            maxF := js_max (maxF d2) (toNumber E (arrays h2) v),
                            minF := js_min (minF d2) (toNumber E (arrays h2) v)\<rparr>
                       else d2)
             in (None, setDimension h2 this i d3))"

text \<open>
  The loop of \<^verbatim>\<open>accumulateRecordValues(record)\<close> over the positions below
  \<^verbatim>\<open>nbrOfDimensions\<close>. \<open>record\<close> is any value: \<^verbatim>\<open>record[i]\<close> is read as \<open>readIndex\<close> says. A
  position without a dimension object is a \<^verbatim>\<open>TypeError\<close>.
\<close>

fun accumulateLoop :: "env \<Rightarrow> heap \<Rightarrow> addr \<Rightarrow> val \<Rightarrow> nat list \<Rightarrow> error option \<times> heap" where
  "accumulateLoop E h this record [] = (None, h)"
| "accumulateLoop E h this record (i # is) =
     (case readIndex (arrays h) record (int i) of
        None \<Rightarrow> (Some TypeError, h)
      | Some v \<Rightarrow>
          if isNullish v then accumulateLoop E h this record is
          else if i < length (dimensions (cubes h ! this)) then
            (case accumulateValue E h this i record v of
               (Some e, h1) \<Rightarrow> (Some e, h1)
             | (None, h1) \<Rightarrow> accumulateLoop E h1 this record is)
          else (Some TypeError, h))"

definition accumulateRecordValues :: "env \<Rightarrow> heap \<Rightarrow> addr \<Rightarrow> val \<Rightarrow> unit result \<times> heap" where
  "accumulateRecordValues E h this record =
     (case accumulateLoop E h this record [0..<nbrOfDimensions (cubes h ! this)] of
        (None, h1) \<Rightarrow> (Return (), h1)
      | (Some e, h1) \<Rightarrow> (Throw e, h1))"

text \<open>
  \<^verbatim>\<open>record.slice(0)\<close>: a new array with the elements of an array, the string itself for
  a string, and a \<^verbatim>\<open>TypeError\<close> (\<open>None\<close>) for a value that has no method \<^verbatim>\<open>slice\<close>.
\<close>

fun copyOf :: "heap \<Rightarrow> val \<Rightarrow> (val \<times> heap) option" where
  "copyOf h (Ref a) = Some (Ref (length (arrays h)), snd (newArray h (arrays h ! a)))"
| "copyOf h (Str s) = Some (Str s, h)"
| "copyOf h v = None"

text \<open>
  \<^verbatim>\<open>addRecordFromArray(record, makeCopy)\<close>. \<open>record\<close> is the value passed (the reference of
  an array, for every caller but \<^verbatim>\<open>slice\<close>, which passes the entries of a list as they
  are); \<open>makeCopy\<close> is \<open>False\<close> exactly when the argument is \<^verbatim>\<open>=== false\<close>. The test
  \<^verbatim>\<open>!record instanceof Array\<close> is \<^verbatim>\<open>(!record) instanceof Array\<close>, which is always false, so
  the first \<^verbatim>\<open>throw\<close> is dead. The record accumulated is \<^verbatim>\<open>this.storage[this.nbrOfRecords]\<close>.
\<close>

definition addRecordFromArray ::
  "env \<Rightarrow> heap \<Rightarrow> addr \<Rightarrow> val \<Rightarrow> bool \<Rightarrow> addr result \<times> heap" where
  "addRecordFromArray E h this record makeCopy =
     (let c = cubes h ! this in
      case lengthOf E (arrays h) record of
        None \<Rightarrow> (Throw TypeError, h)
      | Some l \<Rightarrow>
          if \<not> strictEquals l (Num (Fin (real (nbrOfDimensions c)))) then
            (Throw (DimensionalityMismatch
                      (jsLess E (arrays h) (Num (Fin (real (nbrOfDimensions c)))) l)), h)
          else
            (case (if makeCopy then copyOf h record else Some (record, h)) of
               None \<Rightarrow> (Throw TypeError, h)
             | Some (stored, h1) \<Rightarrow>
                 let h2 = push h1 (storage c) stored in
                 (case accumulateRecordValues E h2 this
                         (arrayGet (arrays h2 ! storage c) (int (nbrOfRecords c))) of
                    (Throw e, h3) \<Rightarrow> (Throw e, h3)
                  | (Return u, h3) \<Rightarrow>
                      (Return this,
                       setCube h3 this
                         ((cubes h3 ! this)\<lparr>nbrOfRecords := nbrOfRecords (cubes h3 ! this) + 1\<rparr>)))))"

text \<open>
  \<^verbatim>\<open>addRecord\<close> on a positional tuple, the array at \<open>record\<close>: it calls
  \<^verbatim>\<open>addRecordFromArray\<close> with no second argument, so the tuple is copied. The branch for a
  labelled mapping (\<^verbatim>\<open>addRecordFromObject\<close>) is an adapter in front of the core and is not
  embedded.
\<close>

definition addRecord :: "env \<Rightarrow> heap \<Rightarrow> addr \<Rightarrow> addr \<Rightarrow> addr result \<times> heap" where
  "addRecord E h this record = addRecordFromArray E h this (Ref record) True"

section \<open>The slice engine\<close>

text \<open>
  The predicates that \<^verbatim>\<open>getFilter\<close> builds are closures over a dimension index and a
  value; \<open>applyFilter\<close> is the call of a function on a record as \<^verbatim>\<open>recordMatchesCriteria\<close>
  makes it, with one argument, and the truth of what it returns. The result \<open>None\<close> is a
  \<^verbatim>\<open>TypeError\<close>: a predicate reads \<^verbatim>\<open>record[dimensionIndex]\<close>, and an aggregation called
  with one argument reads a property of its missing second argument. \<^verbatim>\<open>Cubico.equalTo\<close>
  also logs the record to the console, which is not represented.
\<close>

fun applyFilter :: "env \<Rightarrow> val list list \<Rightarrow> closure \<Rightarrow> val \<Rightarrow> bool option" where
  "applyFilter E A (EqualTo i v) record =
     map_option (\<lambda>x. strictEquals x v) (readIndex A record i)"
| "applyFilter E A (DistinctTo i v) record =
     map_option (\<lambda>x. \<not> looseEquals E A x v) (readIndex A record i)"
| "applyFilter E A (LessThan i v) record =
     map_option (\<lambda>x. jsLess E A x v) (readIndex A record i)"
| "applyFilter E A (LessOrEqualThan i v) record =
     map_option (\<lambda>x. jsLessEq E A x v) (readIndex A record i)"
| "applyFilter E A (GreaterThan i v) record =
     map_option (\<lambda>x. jsLess E A v x) (readIndex A record i)"
| "applyFilter E A (GreaterOrEqualThan i v) record =
     map_option (\<lambda>x. jsLessEq E A v x) (readIndex A record i)"
| "applyFilter E A (UserFunction k) record = Some (userPredicate E k A record)"
| "applyFilter E A f record = None"

definition getFilter :: "val \<Rightarrow> int \<Rightarrow> val \<Rightarrow> error + closure" where
  "getFilter comparator d v =
     (if comparator = Str ''='' then Inr (EqualTo d v)
      else if comparator = Str ''!='' then Inr (DistinctTo d v)
      else if comparator = Str ''<'' then Inr (LessThan d v)
      else if comparator = Str ''<='' then Inr (LessOrEqualThan d v)
      else if comparator = Str ''>'' then Inr (GreaterThan d v)
      else if comparator = Str ''>='' then Inr (GreaterOrEqualThan d v)
      else Inl UnknownComparator)"

text \<open>
  \<^verbatim>\<open>recordMatchesCriteria\<close> on the elements of the criteria array: they are called in
  order, up to the first that returns false. Calling an element that is not a function
  is a \<^verbatim>\<open>TypeError\<close> (\<open>None\<close>).
\<close>

fun recordMatchesCriteria :: "env \<Rightarrow> val list list \<Rightarrow> val \<Rightarrow> val list \<Rightarrow> bool option" where
  "recordMatchesCriteria E A record [] = Some True"
| "recordMatchesCriteria E A record (Fun f # cs) =
     (case applyFilter E A f record of
        None \<Rightarrow> None
      | Some b \<Rightarrow> if \<not> b then Some False else recordMatchesCriteria E A record cs)"
| "recordMatchesCriteria E A record (c # cs) = None"

text \<open>The three variables that track the shortest candidate list of the value index.\<close>

record selection =
  smallerCount :: jsnum
  smallerIndex :: int
  smallerIndexKey :: val

definition operators :: "val list" where
  "operators = [Str ''='', Str ''>'', Str ''<'', Str ''>='', Str ''<='', Str ''!='']"

text \<open>
  One round of the validation loop of \<^verbatim>\<open>slice\<close>, for the element at index \<open>i\<close> of the
  array \<open>criteria\<close>. A function is left alone. An array is the criterion: its first
  component is overwritten with the index of the dimension, and the element of
  \<open>criteria\<close> at \<open>i\<close> is overwritten with the predicate. Everything is read from the heap
  at the time, and both writes go to the heap.
\<close>

definition compileCriterion ::
  "env \<Rightarrow> heap \<Rightarrow> addr \<Rightarrow> addr \<Rightarrow> nat \<Rightarrow> selection \<Rightarrow> (error + selection) \<times> heap" where
  "compileCriterion E h this criteria i s =
     (let c = cubes h ! this in
      case arrayGet (arrays h ! criteria) (int i) of
        Fun f \<Rightarrow> (Inr s, h)
      | Ref a \<Rightarrow>
          let criterion = arrays h ! a in
          if length criterion \<noteq> 3 then (Inl (CriterionBadFormed i), h)
          else
            (case hasOwnProperty (dimensionMap c) (toString E (arrays h) (criterion ! 0)) of
               None \<Rightarrow> (Inl TypeError, h)
             | Some False \<Rightarrow> (Inl (CriterionUnknownDimension i), h)
             | Some True \<Rightarrow>
                 if criterion ! 1 \<in> set operators then
                   (case objGet (dimensionMap c) (toString E (arrays h) (criterion ! 0)) of
                      None \<Rightarrow> (Inl TypeError, h)
                    | Some p \<Rightarrow>
                        let idx = index (dimensions c ! p);
                            h1 = store h a 0 (Num (Fin (real_of_int idx)));
                            key = toString E (arrays h1) (criterion ! 2)
                        in if criterion ! 1 = Str ''='' then
                             (if 0 \<le> idx \<and> nat idx < length (dimensions c) then
                                (case hasOwnProperty (valuesMap (dimensions c ! nat idx)) key of
                                   None \<Rightarrow> (Inl TypeError, h1)
                                 | Some present \<Rightarrow>
                                     (case getFilter (criterion ! 1) idx (criterion ! 2) of
                                        Inl e \<Rightarrow> (Inl e, h1)
                                      | Inr f \<Rightarrow>
                                          (case map_of (valuesMap (dimensions c ! nat idx)) key of
                                             Some l \<Rightarrow>
                                               if present \<and>
                                                  js_lt (Fin (real (length (arrays h1 ! l))))
                                                    (smallerCount s)
                                               then (Inr \<lparr>smallerCount =
                                                            Fin (real (length (arrays h1 ! l))),
                                                          smallerIndex = idx,
                                                          smallerIndexKey = criterion ! 2\<rparr>,
                                                     store h1 criteria i (Fun f))
                                               else (Inr s, store h1 criteria i (Fun f))
                                           | None \<Rightarrow> (Inr s, store h1 criteria i (Fun f)))))
                              else (Inl TypeError, h1))
                           else
                             (case getFilter (criterion ! 1) idx (criterion ! 2) of
                                Inl e \<Rightarrow> (Inl e, h1)
                              | Inr f \<Rightarrow> (Inr s, store h1 criteria i (Fun f))))
                 else (Inl (CriterionBadOperator i), h))
      | v \<Rightarrow> (Inl (CriterionNotArray i), h))"

text \<open>
  The validation loop over the positions of the criteria array. Its writes go to
  positions that the arrays have, so the length of the criteria array is the same in
  every round.
\<close>

fun compileCriteria ::
  "env \<Rightarrow> heap \<Rightarrow> addr \<Rightarrow> addr \<Rightarrow> nat list \<Rightarrow> selection \<Rightarrow> error option \<times> heap \<times> selection" where
  "compileCriteria E h this criteria [] s = (None, h, s)"
| "compileCriteria E h this criteria (i # is) s =
     (case compileCriterion E h this criteria i s of
        (Inl e, h1) \<Rightarrow> (Some e, h1, s)
      | (Inr s1, h1) \<Rightarrow> compileCriteria E h1 this criteria is s1)"

text \<open>The loop of \<^verbatim>\<open>cloneWithoutStorage\<close> over the first \<^verbatim>\<open>nbrOfDimensions\<close> dimensions.\<close>

fun addDimensions :: "heap \<Rightarrow> addr \<Rightarrow> dimension list \<Rightarrow> nat \<Rightarrow> unit result \<times> heap" where
  "addDimensions h new ds 0 = (Return (), h)"
| "addDimensions h new [] (Suc n) = (Throw TypeError, h)"
| "addDimensions h new (d # ds) (Suc n) =
     (case addDimension h new (name d) (dataType d) of
        (Throw e, h1) \<Rightarrow> (Throw e, h1)
      | (Return u, h1) \<Rightarrow> addDimensions h1 new ds n)"

definition cloneWithoutStorage :: "heap \<Rightarrow> addr \<Rightarrow> addr result \<times> heap" where
  "cloneWithoutStorage h this =
     (let (new, h1) = newCubico h in
      case addDimensions h1 new (dimensions (cubes h ! this)) (nbrOfDimensions (cubes h ! this)) of
        (Throw e, h2) \<Rightarrow> (Throw e, h2)
      | (Return u, h2) \<Rightarrow> (Return new, h2))"

text \<open>
  The loop that populates the new cube: the entries of the list at \<open>st\<close> that every
  element of the criteria array accepts are added to the cube \<open>new\<close>, by reference. For a
  mapping there is no criteria array (\<open>None\<close>), and every entry is accepted. The loop
  writes to the new cube and to arrays made for it, so the length of the list is the
  same in every round.
\<close>

definition criteriaList :: "heap \<Rightarrow> addr option \<Rightarrow> val list" where
  "criteriaList h criteria = (case criteria of None \<Rightarrow> [] | Some a \<Rightarrow> arrays h ! a)"

fun populate ::
  "env \<Rightarrow> heap \<Rightarrow> addr \<Rightarrow> addr option \<Rightarrow> addr \<Rightarrow> nat list \<Rightarrow> unit result \<times> heap" where
  "populate E h new criteria st [] = (Return (), h)"
| "populate E h new criteria st (i # is) =
     (case recordMatchesCriteria E (arrays h) (arrayGet (arrays h ! st) (int i))
             (criteriaList h criteria) of
        None \<Rightarrow> (Throw TypeError, h)
      | Some False \<Rightarrow> populate E h new criteria st is
      | Some True \<Rightarrow>
          (case addRecordFromArray E h new (arrayGet (arrays h ! st) (int i)) False of
             (Throw e, h1) \<Rightarrow> (Throw e, h1)
           | (Return u, h1) \<Rightarrow> populate E h1 new criteria st is))"

text \<open>
  The argument of \<^verbatim>\<open>slice\<close>: the array of criteria at an address, or a flat mapping from
  dimension names to primitive values (the own properties of an object literal).
\<close>

datatype literal = NumberLiteral jsnum | StringLiteral string | BooleanLiteral bool
  | NullLiteral | UndefinedLiteral

fun literalValue :: "literal \<Rightarrow> val" where
  "literalValue (NumberLiteral x) = Num x"
| "literalValue (StringLiteral s) = Str s"
| "literalValue (BooleanLiteral b) = Bool b"
| "literalValue NullLiteral = Null"
| "literalValue UndefinedLiteral = Undefined"

datatype criteria = CriteriaArray addr | CriteriaObject "(string \<times> literal) list"

text \<open>
  The list that \<^verbatim>\<open>slice\<close> scans: the list of the value index for the selection, or the
  store. \<open>None\<close> is \<^verbatim>\<open>undefined\<close>, whose \<^verbatim>\<open>length\<close> is a \<^verbatim>\<open>TypeError\<close>.
\<close>

definition chosenStorage :: "env \<Rightarrow> heap \<Rightarrow> addr \<Rightarrow> selection \<Rightarrow> addr option" where
  "chosenStorage E h this s =
     (let c = cubes h ! this in
      if smallerIndex s > - 1 then
        map_of (valuesMap (dimensions c ! nat (smallerIndex s)))
          (toString E (arrays h) (smallerIndexKey s))
      else Some (storage c))"

text \<open>
  \<^verbatim>\<open>slice\<close>.

  The first test of the source, \<^verbatim>\<open>!criteria instanceof Array && typeof criteria === "object"\<close>,
  parses as \<^verbatim>\<open>(!criteria) instanceof Array && ...\<close> and is false for every argument, so the
  branch that turns a mapping into 3-tuples never runs, and neither does the \<^verbatim>\<open>throw\<close>
  that follows. For a mapping, \<^verbatim>\<open>criteria.length\<close> is its property \<^verbatim>\<open>length\<close> (or
  \<^verbatim>\<open>undefined\<close>); where \<^verbatim>\<open>0 < criteria.length\<close> holds, \<^verbatim>\<open>criteria[0]\<close> is no array and the call
  throws, and otherwise neither the validation loop nor the loop of
  \<^verbatim>\<open>recordMatchesCriteria\<close> runs a single round.
\<close>

definition initialSelection :: selection where
  "initialSelection = \<lparr>smallerCount = PosInf, smallerIndex = - 1, smallerIndexKey = Null\<rparr>"

definition slice :: "env \<Rightarrow> heap \<Rightarrow> addr \<Rightarrow> criteria \<Rightarrow> addr result \<times> heap" where
  "slice E h this criteria =
     (case criteria of
        CriteriaObject props \<Rightarrow>
          if jsLess E (arrays h) (Num (Fin 0))
               (case map_of props ''length'' of None \<Rightarrow> Undefined | Some v \<Rightarrow> literalValue v)
          then (Throw (CriterionNotArray 0), h)
          else
            (case cloneWithoutStorage h this of
               (Throw e, h2) \<Rightarrow> (Throw e, h2)
             | (Return new, h2) \<Rightarrow>
                 (case populate E h2 new None (storage (cubes h2 ! this))
                         [0..<length (arrays h2 ! storage (cubes h2 ! this))] of
                    (Throw e, h3) \<Rightarrow> (Throw e, h3)
                  | (Return u, h3) \<Rightarrow> (Return new, h3)))
      | CriteriaArray a \<Rightarrow>
          (case compileCriteria E h this a [0..<length (arrays h ! a)] initialSelection of
             (Some e, h1, s) \<Rightarrow> (Throw e, h1)
           | (None, h1, s) \<Rightarrow>
               (case cloneWithoutStorage h1 this of
                  (Throw e, h2) \<Rightarrow> (Throw e, h2)
                | (Return new, h2) \<Rightarrow>
                    (case chosenStorage E h2 this s of
                       None \<Rightarrow> (Throw TypeError, h2)
                     | Some st \<Rightarrow>
                         (case populate E h2 new (Some a) st
                                 [0..<length (arrays h2 ! st)] of
                            (Throw e, h3) \<Rightarrow> (Throw e, h3)
                          | (Return u, h3) \<Rightarrow> (Return new, h3))))))"

section \<open>Statistics accessors\<close>

definition assertDimension :: "cubico \<Rightarrow> string \<Rightarrow> error option" where
  "assertDimension c d =
     (case hasOwnProperty (dimensionMap c) d of
        None \<Rightarrow> Some TypeError
      | Some False \<Rightarrow> Some (UnknownDimension d)
      | Some True \<Rightarrow> None)"

text \<open>
  \<^verbatim>\<open>this.dimensionMap[dimension]\<close>, read after \<^verbatim>\<open>assertDimension\<close> has passed: the dimension
  object of that name.
\<close>

definition dimensionNamed :: "cubico \<Rightarrow> string \<Rightarrow> dimension option" where
  "dimensionNamed c d = map_option (\<lambda>p. dimensions c ! p) (objGet (dimensionMap c) d)"

definition assertNumericDimension :: "cubico \<Rightarrow> string \<Rightarrow> error option" where
  "assertNumericDimension c d =
     (case assertDimension c d of
        Some e \<Rightarrow> Some e
      | None \<Rightarrow>
          (case dimensionNamed c d of
             None \<Rightarrow> Some TypeError
           | Some dm \<Rightarrow> if dataType dm \<noteq> NUMERIC then Some (NotNumeric d) else None))"

definition getDimensionIndex :: "cubico \<Rightarrow> string \<Rightarrow> int result" where
  "getDimensionIndex c d =
     (case assertDimension c d of
        Some e \<Rightarrow> Throw e
      | None \<Rightarrow>
          (case dimensionNamed c d of
             None \<Rightarrow> Throw TypeError
           | Some dm \<Rightarrow> Return (index dm)))"

text \<open>
  An accessor that asserts a numeric dimension and then reads the dimension object.
  The methods \<^verbatim>\<open>sum\<close>, \<^verbatim>\<open>min\<close> and \<^verbatim>\<open>max\<close> are \<open>Cubico_sum\<close>, \<open>Cubico_min\<close> and \<open>Cubico_max\<close> here.
\<close>

definition onNumericDimension :: "cubico \<Rightarrow> string \<Rightarrow> (dimension \<Rightarrow> 'a) \<Rightarrow> 'a result" where
  "onNumericDimension c d f =
     (case assertNumericDimension c d of
        Some e \<Rightarrow> Throw e
      | None \<Rightarrow> (case dimensionNamed c d of None \<Rightarrow> Throw TypeError | Some dm \<Rightarrow> Return (f dm)))"

definition Cubico_sum :: "heap \<Rightarrow> addr \<Rightarrow> string \<Rightarrow> val result" where
  "Cubico_sum h this d = onNumericDimension (cubes h ! this) d summation"

definition sumOfSquares :: "heap \<Rightarrow> addr \<Rightarrow> string \<Rightarrow> jsnum result" where
  "sumOfSquares h this d = onNumericDimension (cubes h ! this) d summationOfSquares"

definition Cubico_min :: "heap \<Rightarrow> addr \<Rightarrow> string \<Rightarrow> jsnum result" where
  "Cubico_min h this d = onNumericDimension (cubes h ! this) d minF"

definition Cubico_max :: "heap \<Rightarrow> addr \<Rightarrow> string \<Rightarrow> jsnum result" where
  "Cubico_max h this d = onNumericDimension (cubes h ! this) d maxF"

text \<open>
  The source assigns \<^verbatim>\<open>Cubico.prototype.countUnique\<close> twice. The first function returns
  the field \<^verbatim>\<open>countUnique\<close> of the dimension (the number of values accumulated, marked
  \<^verbatim>\<open>S0\<close> in \<^verbatim>\<open>accumulateRecordValues\<close>); the second returns \<^verbatim>\<open>valuesMapSize\<close> (the number of
  keys of the value index). The second assignment replaces the first, so every call of
  \<^verbatim>\<open>countUnique\<close> runs the second function.
\<close>

definition countUnique_overwritten :: "heap \<Rightarrow> addr \<Rightarrow> string \<Rightarrow> nat result" where
  "countUnique_overwritten h this d =
     (case assertDimension (cubes h ! this) d of
        Some e \<Rightarrow> Throw e
      | None \<Rightarrow>
          (case dimensionNamed (cubes h ! this) d of
             None \<Rightarrow> Throw TypeError
           | Some dm \<Rightarrow> Return (countUniqueF dm)))"

definition countUnique :: "heap \<Rightarrow> addr \<Rightarrow> string \<Rightarrow> nat result" where
  "countUnique h this d =
     (case assertDimension (cubes h ! this) d of
        Some e \<Rightarrow> Throw e
      | None \<Rightarrow>
          (case dimensionNamed (cubes h ! this) d of
             None \<Rightarrow> Throw TypeError
           | Some dm \<Rightarrow> Return (valuesMapSize dm)))"

definition average :: "env \<Rightarrow> heap \<Rightarrow> addr \<Rightarrow> string \<Rightarrow> jsnum result" where
  "average E h this d =
     onNumericDimension (cubes h ! this) d
       (\<lambda>dm. if countUniqueF dm > 0
              then js_div (toNumber E (arrays h) (summation dm)) (Fin (real (countUniqueF dm)))
              else Fin 0)"

text \<open>
  The loop of the exact \<^verbatim>\<open>stdDev\<close> over the positions below \<^verbatim>\<open>nbrOfRecords\<close> of the store at
  \<open>st\<close>: the sum of \<^verbatim>\<open>Math.pow(this.storage[i][dimIdx] - average, 2)\<close>. Reading a position of
  an entry that is \<^verbatim>\<open>null\<close> or missing is a \<^verbatim>\<open>TypeError\<close> (\<open>None\<close>).
\<close>

fun squaredDeviationsLoop ::
  "env \<Rightarrow> heap \<Rightarrow> addr \<Rightarrow> nat list \<Rightarrow> int \<Rightarrow> jsnum \<Rightarrow> jsnum \<Rightarrow> jsnum option" where
  "squaredDeviationsLoop E h st [] dimIdx avg acc = Some acc"
| "squaredDeviationsLoop E h st (i # is) dimIdx avg acc =
     (case readIndex (arrays h) (arrayGet (arrays h ! st) (int i)) dimIdx of
        None \<Rightarrow> None
      | Some x \<Rightarrow>
          squaredDeviationsLoop E h st is dimIdx avg
            (js_add acc (js_pow2 (js_sub (toNumber E (arrays h) x) avg))))"

definition squaredDeviations ::
  "env \<Rightarrow> heap \<Rightarrow> addr \<Rightarrow> nat \<Rightarrow> int \<Rightarrow> jsnum \<Rightarrow> jsnum \<Rightarrow> jsnum option" where
  "squaredDeviations E h st n dimIdx avg acc = squaredDeviationsLoop E h st [0..<n] dimIdx avg acc"

text \<open>
  \<^verbatim>\<open>stdDev(dimension, approximate)\<close>; \<open>approximate\<close> is \<open>True\<close> exactly when the argument is
  \<^verbatim>\<open>=== true\<close>. The exact result is stored on the dimension object.
\<close>

definition stdDev :: "env \<Rightarrow> heap \<Rightarrow> addr \<Rightarrow> string \<Rightarrow> bool \<Rightarrow> jsnum result \<times> heap" where
  "stdDev E h this d approximate =
     (let c = cubes h ! this in
      case assertNumericDimension c d of
        Some e \<Rightarrow> (Throw e, h)
      | None \<Rightarrow>
          (case (countUnique h this d, sumOfSquares h this d, Cubico_sum h this d,
                 average E h this d, objGet (dimensionMap c) d) of
             (Return n, Return s2, Return s1, Return avg, Some p) \<Rightarrow>
               if n = 0 then (Return (Fin 0), h)
               else if approximate then
                 (Return (js_div (js_sqrt (js_sub (js_mul (Fin (real n)) s2)
                                                  (js_pow2 (toNumber E (arrays h) s1))))
                                 (Fin (real n))), h)
               else
                 (case stdDevF (dimensions c ! p) of
                    Some x \<Rightarrow> (Return x, h)
                  | None \<Rightarrow>
                      (case squaredDeviations E h (storage c) (nbrOfRecords c)
                              (index (dimensions c ! p)) avg (Fin 0) of
                         None \<Rightarrow> (Throw TypeError, h)
                       | Some tot \<Rightarrow>
                           let x = js_sqrt (js_div tot (Fin (real n))) in
                           (Return x,
                            setCube h this
                              (c\<lparr>dimensions := (dimensions c)[p := (dimensions c ! p)\<lparr>stdDevF := Some x\<rparr>]\<rparr>))))
           | _ \<Rightarrow> (Throw TypeError, h)))"

text \<open>The loop of \<^verbatim>\<open>covariance\<close> over the positions below \<^verbatim>\<open>nbrOfRecords\<close> of the store at \<open>st\<close>.\<close>

fun deviationProductsLoop ::
  "env \<Rightarrow> heap \<Rightarrow> addr \<Rightarrow> nat list \<Rightarrow> int \<Rightarrow> int \<Rightarrow> jsnum \<Rightarrow> jsnum \<Rightarrow> jsnum \<Rightarrow> jsnum option" where
  "deviationProductsLoop E h st [] dim1 dim2 avg1 avg2 acc = Some acc"
| "deviationProductsLoop E h st (i # is) dim1 dim2 avg1 avg2 acc =
     (case (readIndex (arrays h) (arrayGet (arrays h ! st) (int i)) dim1,
            readIndex (arrays h) (arrayGet (arrays h ! st) (int i)) dim2) of
        (Some x, Some y) \<Rightarrow>
          deviationProductsLoop E h st is dim1 dim2 avg1 avg2
            (js_add acc (js_mul (js_sub (toNumber E (arrays h) x) avg1)
                                (js_sub (toNumber E (arrays h) y) avg2)))
      | _ \<Rightarrow> None)"

definition deviationProducts ::
  "env \<Rightarrow> heap \<Rightarrow> addr \<Rightarrow> nat \<Rightarrow> int \<Rightarrow> int \<Rightarrow> jsnum \<Rightarrow> jsnum \<Rightarrow> jsnum \<Rightarrow> jsnum option" where
  "deviationProducts E h st n dim1 dim2 avg1 avg2 acc =
     deviationProductsLoop E h st [0..<n] dim1 dim2 avg1 avg2 acc"

definition covariance :: "env \<Rightarrow> heap \<Rightarrow> addr \<Rightarrow> string \<Rightarrow> string \<Rightarrow> jsnum result" where
  "covariance E h this dimension1 dimension2 =
     (let c = cubes h ! this in
      case assertNumericDimension c dimension1 of
        Some e \<Rightarrow> Throw e
      | None \<Rightarrow>
          (case assertNumericDimension c dimension2 of
             Some e \<Rightarrow> Throw e
           | None \<Rightarrow>
               (case (getDimensionIndex c dimension1, getDimensionIndex c dimension2,
                      average E h this dimension1, average E h this dimension2,
                      countUnique h this dimension1, countUnique h this dimension2) of
                  (Return dim1, Return dim2, Return avg1, Return avg2, Return n1, Return n2) \<Rightarrow>
                    (case deviationProducts E h (storage c) (nbrOfRecords c) dim1 dim2 avg1 avg2
                            (Fin 0) of
                       None \<Rightarrow> Throw TypeError
                     | Some tot \<Rightarrow> Return (js_div tot (js_max (Fin (real n1)) (Fin (real n2)))))
                | _ \<Rightarrow> Throw TypeError)))"

section \<open>The aggregation engine\<close>

definition emptyStatics :: statics where
  "emptyStatics = \<lparr>runningTotal = None, count = None, countUniqueS = None, valuesMapS = [],
                    custom = []\<rparr>"

text \<open>\<^verbatim>\<open>!x\<close> for a property that is unset or a number: unset, zero and \<^verbatim>\<open>NaN\<close> are falsy.\<close>

definition falsy :: "jsnum option \<Rightarrow> bool" where
  "falsy x = (x = None \<or> x = Some (Fin 0) \<or> x = Some NaN)"

text \<open>A numeric property read where the code expects a number (unset behaves as \<^verbatim>\<open>NaN\<close>).\<close>

definition numberOf :: "jsnum option \<Rightarrow> jsnum" where
  "numberOf x = (case x of None \<Rightarrow> NaN | Some n \<Rightarrow> n)"

text \<open>
  \<^verbatim>\<open>parseFloat\<close> of a value: the value is converted to its string, which is read as a
  number; for a number this gives the number itself.
\<close>

fun parseFloat :: "env \<Rightarrow> val list list \<Rightarrow> val \<Rightarrow> jsnum" where
  "parseFloat E A (Num x) = x"
| "parseFloat E A v = parseFloatStr E (toString E A v)"

text \<open>
  The call \<^verbatim>\<open>f(record, staticVars)\<close> of a function as a measure: the closures returned by
  \<^verbatim>\<open>sumOf\<close>, \<^verbatim>\<open>countOf\<close>, \<^verbatim>\<open>countUniqueOf\<close> and \<^verbatim>\<open>averageOf\<close>, each with the dimension index it
  captures, a function of the caller, or a predicate of \<^verbatim>\<open>getFilter\<close>, which ignores the
  state object and returns a boolean. Reading a position of a record that is \<^verbatim>\<open>null\<close> or
  \<^verbatim>\<open>undefined\<close> is a \<^verbatim>\<open>TypeError\<close>.
\<close>

definition sumOf :: "env \<Rightarrow> val list list \<Rightarrow> val \<Rightarrow> statics \<Rightarrow> val \<times> statics" where
  "sumOf E A x st =
     (let st1 = (if falsy (runningTotal st) then st\<lparr>runningTotal := Some (Fin 0)\<rparr> else st);
          st2 = (if x \<noteq> Null
                 then st1\<lparr>runningTotal :=
                            Some (js_add (numberOf (runningTotal st1)) (parseFloat E A x))\<rparr>
                 else st1)
      in (Num (numberOf (runningTotal st2)), st2))"

definition averageOf :: "env \<Rightarrow> val list list \<Rightarrow> val \<Rightarrow> statics \<Rightarrow> val \<times> statics" where
  "averageOf E A x st =
     (let st1 = (if falsy (runningTotal st)
                 then st\<lparr>count := Some (Fin 0), runningTotal := Some (Fin 0)\<rparr> else st);
          st2 = (if x \<noteq> Null
                 then st1\<lparr>count := Some (js_add (numberOf (count st1)) (Fin 1)),
                          runningTotal :=
                            Some (js_add (numberOf (runningTotal st1)) (parseFloat E A x))\<rparr>
                 else st1)
      in (Num (js_div (numberOf (runningTotal st2)) (numberOf (count st2))), st2))"

definition countAll :: "statics \<Rightarrow> val \<times> statics" where
  "countAll st =
     (let st1 = (if falsy (count st) then st\<lparr>count := Some (Fin 0)\<rparr> else st);
          st2 = st1\<lparr>count := Some (js_add (numberOf (count st1)) (Fin 1))\<rparr>
      in (Num (numberOf (count st2)), st2))"

definition countOf :: "val \<Rightarrow> statics \<Rightarrow> val \<times> statics" where
  "countOf x st =
     (let st1 = (if falsy (count st) then st\<lparr>count := Some (Fin 0)\<rparr> else st);
          st2 = (if x \<noteq> Null
                 then st1\<lparr>count := Some (js_add (numberOf (count st1)) (Fin 1))\<rparr> else st1)
      in (Num (numberOf (count st2)), st2))"

definition countUniqueOf :: "env \<Rightarrow> val list list \<Rightarrow> val \<Rightarrow> statics \<Rightarrow> error + val \<times> statics" where
  "countUniqueOf E A x st =
     (let st1 = (if falsy (countUniqueS st)
                 then st\<lparr>countUniqueS := Some (Fin 0), valuesMapS := []\<rparr> else st)
      in case hasOwnProperty (valuesMapS st1) (toString E A x) of
           None \<Rightarrow> Inl TypeError
         | Some True \<Rightarrow> Inr (Num (numberOf (countUniqueS st1)), st1)
         | Some False \<Rightarrow>
             let st2 = st1\<lparr>valuesMapS := objSet (valuesMapS st1) (toString E A x) True,
                           countUniqueS := Some (js_add (numberOf (countUniqueS st1)) (Fin 1))\<rparr>
             in Inr (Num (numberOf (countUniqueS st2)), st2))"

fun applyAggregation ::
  "env \<Rightarrow> val list list \<Rightarrow> closure \<Rightarrow> val \<Rightarrow> statics \<Rightarrow> error + val \<times> statics" where
  "applyAggregation E A (SumOf dimIdx) record st =
     (case readIndex A record dimIdx of
        None \<Rightarrow> Inl TypeError | Some x \<Rightarrow> Inr (sumOf E A x st))"
| "applyAggregation E A (AverageOf dimIdx) record st =
     (case readIndex A record dimIdx of
        None \<Rightarrow> Inl TypeError | Some x \<Rightarrow> Inr (averageOf E A x st))"
| "applyAggregation E A CountAll record st = Inr (countAll st)"
| "applyAggregation E A (CountOf dimIdx) record st =
     (case readIndex A record dimIdx of
        None \<Rightarrow> Inl TypeError | Some x \<Rightarrow> Inr (countOf x st))"
| "applyAggregation E A (CountUniqueOf dimIdx) record st =
     (case readIndex A record dimIdx of
        None \<Rightarrow> Inl TypeError | Some x \<Rightarrow> countUniqueOf E A x st)"
| "applyAggregation E A (UserFunction k) record st = Inr (userAggregation E k A record st)"
| "applyAggregation E A f record st =
     (case applyFilter E A f record of
        None \<Rightarrow> Inl TypeError | Some b \<Rightarrow> Inr (Bool b, st))"

text \<open>
  \<^verbatim>\<open>getAggregation(aggregationName, dimensionName)\<close> on two values: the \<^verbatim>\<open>switch\<close> compares
  the first with \<^verbatim>\<open>===\<close>, \<^verbatim>\<open>countOf\<close> compares the second with \<^verbatim>\<open>"*"\<close> by \<^verbatim>\<open>==\<close>, and the name of
  the dimension is looked up as a property key.
\<close>

definition getAggregation :: "env \<Rightarrow> val list list \<Rightarrow> cubico \<Rightarrow> val \<Rightarrow> val \<Rightarrow> closure result" where
  "getAggregation E A c aggregationName dimensionName =
     (if aggregationName = Str ''sum'' then
        (case getDimensionIndex c (toString E A dimensionName) of
           Throw e \<Rightarrow> Throw e | Return i \<Rightarrow> Return (SumOf i))
      else if aggregationName = Str ''count'' then
        (if looseEquals E A dimensionName (Str ''*'') then Return CountAll
         else (case getDimensionIndex c (toString E A dimensionName) of
                 Throw e \<Rightarrow> Throw e | Return i \<Rightarrow> Return (CountOf i)))
      else if aggregationName = Str ''countUnique'' then
        (case getDimensionIndex c (toString E A dimensionName) of
           Throw e \<Rightarrow> Throw e | Return i \<Rightarrow> Return (CountUniqueOf i))
      else if aggregationName = Str ''average'' then
        (case getDimensionIndex c (toString E A dimensionName) of
           Throw e \<Rightarrow> Throw e | Return i \<Rightarrow> Return (AverageOf i))
      else Throw (UnknownAggregation (toString E A aggregationName)))"

text \<open>
  \<^verbatim>\<open>Cubico.getHashCode(record, indexes)\<close>: the strings of the record's values at the
  indexes, from the last index to the first, each followed by \<^verbatim>\<open>"_7"\<close>. Reading a
  position of a record that is \<^verbatim>\<open>null\<close> or \<^verbatim>\<open>undefined\<close>, and calling \<^verbatim>\<open>toString\<close> on a value
  that is \<^verbatim>\<open>null\<close> or \<^verbatim>\<open>undefined\<close>, is a \<^verbatim>\<open>TypeError\<close> (\<open>None\<close>). The indexes are the numbers that
  the first loop of \<^verbatim>\<open>aggregate\<close> has written into its array of dimensions.
\<close>

fun hashLoop :: "env \<Rightarrow> val list list \<Rightarrow> val \<Rightarrow> int list \<Rightarrow> string \<Rightarrow> string option" where
  "hashLoop E A record [] hash = Some hash"
| "hashLoop E A record (i # is) hash =
     (case readIndex A record i of
        None \<Rightarrow> None
      | Some x \<Rightarrow>
          if isNullish x then None
          else hashLoop E A record is (hash @ toString E A x @ ''_7''))"

definition getHashCode :: "env \<Rightarrow> val list list \<Rightarrow> val \<Rightarrow> int list \<Rightarrow> string option" where
  "getHashCode E A record indexes = hashLoop E A record (rev indexes) []"

text \<open>
  The first loop of \<^verbatim>\<open>aggregate\<close>, over the positions of the array of dimensions at
  \<open>dims\<close>: the entry is overwritten with the index of the dimension it names, and the
  dimension is added to the new cube. The result carries the indexes written.
\<close>

fun resolveDimensions ::
  "env \<Rightarrow> heap \<Rightarrow> addr \<Rightarrow> addr \<Rightarrow> addr \<Rightarrow> nat list \<Rightarrow> error option \<times> int list \<times> heap" where
  "resolveDimensions E h this new dims [] = (None, [], h)"
| "resolveDimensions E h this new dims (i # is) =
     (let c = cubes h ! this in
      case getDimensionIndex c (toString E (arrays h) (arrayGet (arrays h ! dims) (int i))) of
        Throw e \<Rightarrow> (Some e, [], h)
      | Return idx \<Rightarrow>
          let h1 = store h dims i (Num (Fin (real_of_int idx))) in
          if 0 \<le> idx \<and> nat idx < length (dimensions c) then
            (case addDimension h1 new (name (dimensions c ! nat idx))
                    (dataType (dimensions c ! nat idx)) of
               (Throw e, h2) \<Rightarrow> (Some e, [], h2)
             | (Return u, h2) \<Rightarrow>
                 (case resolveDimensions E h2 this new dims is of
                    (e, idxs, h3) \<Rightarrow> (e, idx # idxs, h3)))
          else (Some TypeError, [], h1))"

text \<open>
  The second loop of \<^verbatim>\<open>aggregate\<close>, over the positions of the array of measures at \<open>msrs\<close>.
  An entry that is a function stays. Any other entry \<open>m\<close> is read as a pair
  \<^verbatim>\<open>[kind, dimension]\<close> and overwritten with the function that \<^verbatim>\<open>getAggregation\<close> returns. A
  numeric dimension is added to the new cube for each; \<open>k\<close> counts the calls of
  \<^verbatim>\<open>Math.random\<close>.
\<close>

fun resolveMeasures ::
  "env \<Rightarrow> heap \<Rightarrow> addr \<Rightarrow> addr \<Rightarrow> addr \<Rightarrow> nat list \<Rightarrow> nat \<Rightarrow> error option \<times> heap" where
  "resolveMeasures E h this new msrs [] k = (None, h)"
| "resolveMeasures E h this new msrs (i # is) k =
     (case arrayGet (arrays h ! msrs) (int i) of
        Fun f \<Rightarrow>
          (case addDimension h new (''a_'' @ numToString E (mathRandom E k)) NUMERIC of
             (Throw e, h1) \<Rightarrow> (Some e, h1)
           | (Return u, h1) \<Rightarrow> resolveMeasures E h1 this new msrs is (k + 1))
      | m \<Rightarrow>
          (case (readIndex (arrays h) m 0, readIndex (arrays h) m 1) of
             (Some kind, Some d) \<Rightarrow>
               (case getAggregation E (arrays h) (cubes h ! this) kind d of
                  Throw e \<Rightarrow> (Some e, h)
                | Return f \<Rightarrow>
                    (case addDimension (store h msrs i (Fun f)) new
                            (toString E (arrays h) kind @ ''_'' @ toString E (arrays h) d)
                            NUMERIC of
                       (Throw e, h1) \<Rightarrow> (Some e, h1)
                     | (Return u, h1) \<Rightarrow> resolveMeasures E h1 this new msrs is k))
           | _ \<Rightarrow> (Some TypeError, h)))"

text \<open>
  The measures of one group are called in order on the source record, each with its
  own state object, and each value returned is written into the aggregated row at
  \<open>row\<close>, from position \<^verbatim>\<open>nbrOfDimensions\<close> on. An entry of the array of measures that is
  not a function cannot be called (a \<^verbatim>\<open>TypeError\<close>).
\<close>

fun applyMeasures ::
  "env \<Rightarrow> heap \<Rightarrow> val \<Rightarrow> addr \<Rightarrow> nat \<Rightarrow> val list \<Rightarrow> statics list \<Rightarrow>
     error option \<times> statics list \<times> heap" where
  "applyMeasures E h record row pos [] sts = (None, sts, h)"
| "applyMeasures E h record row pos (Fun f # fs) (st # sts) =
     (case applyAggregation E (arrays h) f record st of
        Inl e \<Rightarrow> (Some e, st # sts, h)
      | Inr (v, st') \<Rightarrow>
          (case applyMeasures E (store h row pos v) record row (Suc pos) fs sts of
             (e, sts', h1) \<Rightarrow> (e, st' # sts', h1)))"
| "applyMeasures E h record row pos fs sts = (Some TypeError, sts, h)"

text \<open>
  \<^verbatim>\<open>storageMap\<close> and \<^verbatim>\<open>statics\<close> are two objects with the same keys; \<open>groups\<close> holds both: per
  key, the address of the aggregated row and the state objects of the measures. The
  list \<^verbatim>\<open>children\<close> of a group is only ever appended to and is left out.
\<close>

type_synonym groups = "(addr \<times> statics list) jsobj"

text \<open>
  One round of the main loop of \<^verbatim>\<open>aggregate\<close>, for the entry \<open>record\<close> of the store. The
  row of a new group is a new array of \<^verbatim>\<open>nbrOfDimensions + nbrOfMeasures\<close> positions.
\<close>

definition aggregateRecord ::
  "env \<Rightarrow> heap \<Rightarrow> int list \<Rightarrow> addr \<Rightarrow> nat \<Rightarrow> groups \<Rightarrow> val \<Rightarrow> error option \<times> groups \<times> heap" where
  "aggregateRecord E h idxs msrs nbrOfMeasures g originalRecord =
     (case getHashCode E (arrays h) originalRecord idxs of
        None \<Rightarrow> (Some TypeError, g, h)
      | Some uniqueKey \<Rightarrow>
          (case hasOwnProperty g uniqueKey of
             None \<Rightarrow> (Some TypeError, g, h)
           | Some present \<Rightarrow>
               let h1 = (if present then h
                         else snd (newArray h
                                (map (\<lambda>i. case readIndex (arrays h) originalRecord i of
                                             None \<Rightarrow> Undefined | Some x \<Rightarrow> x) idxs
                                 @ replicate nbrOfMeasures Undefined)));
                   g1 = (if present then g
                         else objSet g uniqueKey
                                (length (arrays h), replicate nbrOfMeasures emptyStatics))
               in (case objGet g1 uniqueKey of
                     None \<Rightarrow> (Some TypeError, g1, h1)
                   | Some (row, sts) \<Rightarrow>
                       (case applyMeasures E h1 originalRecord row (length idxs)
                               (arrays h1 ! msrs) sts of
                          (e, sts', h2) \<Rightarrow> (e, objSet g1 uniqueKey (row, sts'), h2)))))"

text \<open>The main loop, over the positions below \<^verbatim>\<open>nbrOfRecords\<close> of the store of the cube.\<close>

fun aggregateRecords ::
  "env \<Rightarrow> heap \<Rightarrow> addr \<Rightarrow> int list \<Rightarrow> addr \<Rightarrow> nat \<Rightarrow> groups \<Rightarrow> nat list \<Rightarrow>
     error option \<times> groups \<times> heap" where
  "aggregateRecords E h this idxs msrs nbrOfMeasures g [] = (None, g, h)"
| "aggregateRecords E h this idxs msrs nbrOfMeasures g (i # is) =
     (case aggregateRecord E h idxs msrs nbrOfMeasures g
             (arrayGet (arrays h ! storage (cubes h ! this)) (int i)) of
        (Some e, g1, h1) \<Rightarrow> (Some e, g1, h1)
      | (None, g1, h1) \<Rightarrow> aggregateRecords E h1 this idxs msrs nbrOfMeasures g1 is)"

text \<open>The last loop: the aggregated rows are added to the new cube in the order of the keys.\<close>

fun addRows :: "env \<Rightarrow> heap \<Rightarrow> addr \<Rightarrow> addr list \<Rightarrow> unit result \<times> heap" where
  "addRows E h new [] = (Return (), h)"
| "addRows E h new (a # as) =
     (case addRecordFromArray E h new (Ref a) False of
        (Throw e, h1) \<Rightarrow> (Throw e, h1)
      | (Return u, h1) \<Rightarrow> addRows E h1 new as)"

text \<open>
  The first argument of \<^verbatim>\<open>aggregate\<close>: one name, which the call wraps in a new array, or
  the array of names at an address. The second argument is the array of measures at
  \<open>msrs\<close>.
\<close>

datatype groupBy = GroupByName string | GroupByArray addr

definition aggregate :: "env \<Rightarrow> heap \<Rightarrow> addr \<Rightarrow> groupBy \<Rightarrow> addr \<Rightarrow> addr result \<times> heap" where
  "aggregate E h this groupByDimensions msrs =
     (let (dims, h0) = (case groupByDimensions of
                          GroupByName s \<Rightarrow> newArray h [Str s]
                        | GroupByArray a \<Rightarrow> (a, h));
          (new, h1) = newCubico h0
      in case resolveDimensions E h1 this new dims [0..<length (arrays h1 ! dims)] of
           (Some e, idxs, h2) \<Rightarrow> (Throw e, h2)
         | (None, idxs, h2) \<Rightarrow>
             (case resolveMeasures E h2 this new msrs [0..<length (arrays h2 ! msrs)] 0 of
                (Some e, h3) \<Rightarrow> (Throw e, h3)
              | (None, h3) \<Rightarrow>
                  (case aggregateRecords E h3 this idxs msrs (length (arrays h3 ! msrs)) []
                          [0..<nbrOfRecords (cubes h3 ! this)] of
                     (Some e, g, h4) \<Rightarrow> (Throw e, h4)
                   | (None, g, h4) \<Rightarrow>
                       (case addRows E h4 new (map (\<lambda>kv. fst (snd kv)) g) of
                          (Throw e, h5) \<Rightarrow> (Throw e, h5)
                        | (Return u, h5) \<Rightarrow> (Return new, h5)))))"

section \<open>A reference for the equality slice\<close>

text \<open>
  The slice that the specification compares the optimised one with: the same
  validation and the same compiled predicates, evaluated on every entry of the whole
  store, with no use of the value index.
\<close>

definition sliceFullScan :: "env \<Rightarrow> heap \<Rightarrow> addr \<Rightarrow> addr \<Rightarrow> addr result \<times> heap" where
  "sliceFullScan E h this a =
     (case compileCriteria E h this a [0..<length (arrays h ! a)] initialSelection of
        (Some e, h1, s) \<Rightarrow> (Throw e, h1)
      | (None, h1, s) \<Rightarrow>
          (case cloneWithoutStorage h1 this of
             (Throw e, h2) \<Rightarrow> (Throw e, h2)
           | (Return new, h2) \<Rightarrow>
               (case populate E h2 new (Some a) (storage (cubes h2 ! this))
                       [0..<length (arrays h2 ! storage (cubes h2 ! this))] of
                  (Throw e, h3) \<Rightarrow> (Throw e, h3)
                | (Return u, h3) \<Rightarrow> (Return new, h3))))"

text \<open>
  The entries of the store of a cube, and its records: the contents of the arrays that
  the entries refer to, in the order of the store.
\<close>

definition storeOf :: "heap \<Rightarrow> addr \<Rightarrow> val list" where
  "storeOf h this = arrays h ! storage (cubes h ! this)"

fun contents :: "heap \<Rightarrow> val \<Rightarrow> val list" where
  "contents h (Ref a) = arrays h ! a"
| "contents h v = []"

definition recordsOf :: "heap \<Rightarrow> addr \<Rightarrow> val list list" where
  "recordsOf h this = map (contents h) (storeOf h this)"

text \<open>The count of the records of a cube that hold a value at a position.\<close>

definition nonNullCount :: "heap \<Rightarrow> addr \<Rightarrow> int \<Rightarrow> nat" where
  "nonNullCount h this i =
     length (filter (\<lambda>r. \<not> isNullish (arrayGet r i)) (recordsOf h this))"

section \<open>Example cubes\<close>

text \<open>
  The examples run in an environment whose number-to-string conversion prints the
  integer part of a number in decimal, as JavaScript does for the integers used below.
  No example converts a string to a number or an array or a function to a string, calls
  \<^verbatim>\<open>Math.random\<close> or passes a function of its own; these components are placeholders.
\<close>

function natToString :: "nat \<Rightarrow> string" where
  "natToString n =
     (if n < 10 then [''0123456789'' ! n]
      else natToString (n div 10) @ [''0123456789'' ! (n mod 10)])"
  by pat_completeness auto
termination
  by (relation "measure id") auto

definition exampleEnv :: env where
  "exampleEnv =
     \<lparr>numToString =
        (\<lambda>x. if x < 0 then CHR ''-'' # natToString (nat \<lfloor>- x\<rfloor>) else natToString (nat \<lfloor>x\<rfloor>)),
      stringToNumber = (\<lambda>s. NaN), parseFloatStr = (\<lambda>s. NaN), mathRandom = (\<lambda>k. 0),
      arrayToString = (\<lambda>A a. []), functionToString = (\<lambda>f. []), userArity = (\<lambda>k. 0),
      userPredicate = (\<lambda>k A r. False), userAggregation = (\<lambda>k A r st. (Undefined, st))\<rparr>"

definition emptyHeap :: heap where
  "emptyHeap = \<lparr>cubes = [], arrays = []\<rparr>"

text \<open>
  \<^verbatim>\<open>new Cubico()\<close> followed by \<^verbatim>\<open>addDimension\<close> for each name and type, in an empty heap:
  the cube is at 0 and its store is the array at 0.
\<close>

definition cubeWith :: "(string \<times> int) list \<Rightarrow> heap" where
  "cubeWith ds = foldl (\<lambda>h (nm, dt). snd (addDimension h 0 nm dt)) (snd (newCubico emptyHeap)) ds"

text \<open>\<^verbatim>\<open>cube.addRecord([...])\<close> with an array literal: the literal is allocated, then passed.\<close>

definition addTuple :: "env \<Rightarrow> heap \<Rightarrow> addr \<Rightarrow> val list \<Rightarrow> heap" where
  "addTuple E h this xs = snd (addRecord E (snd (newArray h xs)) this (fst (newArray h xs)))"

text \<open>An array literal, allocated after everything else.\<close>

definition withArray :: "heap \<Rightarrow> val list \<Rightarrow> heap" where
  "withArray h xs = snd (newArray h xs)"

text \<open>One text dimension \<^verbatim>\<open>country\<close> with the records \<^verbatim>\<open>["AR"]\<close> and \<^verbatim>\<open>["US"]\<close>.\<close>

definition countries :: heap where
  "countries =
     addTuple exampleEnv (addTuple exampleEnv (cubeWith [(''country'', TEXT)]) 0 [Str ''AR''])
       0 [Str ''US'']"

text \<open>\<^verbatim>\<open>countries.slice({country: "AR"})\<close>.\<close>

definition sliceByMapping :: "addr result \<times> heap" where
  "sliceByMapping =
     slice exampleEnv countries 0 (CriteriaObject [(''country'', StringLiteral ''AR'')])"

text \<open>
  \<^verbatim>\<open>countries.slice([["country", "=", "AR"]])\<close>: the 3-tuple is the array at 7 and the
  array of criteria is the array at 8.
\<close>

definition countriesWithCriteria :: heap where
  "countriesWithCriteria =
     withArray (withArray countries [Str ''country'', Str ''='', Str ''AR'']) [Ref 7]"

definition sliceByTuple :: "addr result \<times> heap" where
  "sliceByTuple = slice exampleEnv countriesWithCriteria 0 (CriteriaArray 8)"

text \<open>
  One text dimension \<^verbatim>\<open>d\<close> with the records \<^verbatim>\<open>[null]\<close> and \<^verbatim>\<open>["null"]\<close>, the array
  \<^verbatim>\<open>["d", "=", null]\<close> at 6 and the array of criteria that holds it at 7.
\<close>

definition nulls :: heap where
  "nulls =
     withArray
       (withArray
          (addTuple exampleEnv (addTuple exampleEnv (cubeWith [(''d'', TEXT)]) 0 [Null])
             0 [Str ''null''])
          [Str ''d'', Str ''='', Null])
       [Ref 6]"

text \<open>Two numeric dimensions \<^verbatim>\<open>a\<close> and \<^verbatim>\<open>b\<close> with the records \<^verbatim>\<open>[1, 1]\<close>, \<^verbatim>\<open>[1, 1]\<close> and \<^verbatim>\<open>[4, 4]\<close>.\<close>

definition ages :: heap where
  "ages =
     addTuple exampleEnv
       (addTuple exampleEnv
          (addTuple exampleEnv (cubeWith [(''a'', NUMERIC), (''b'', NUMERIC)]) 0
             [Num (Fin 1), Num (Fin 1)])
          0 [Num (Fin 1), Num (Fin 1)])
       0 [Num (Fin 4), Num (Fin 4)]"

text \<open>One numeric dimension \<^verbatim>\<open>x\<close> with the records \<^verbatim>\<open>[0]\<close>, \<^verbatim>\<open>[0]\<close> and \<^verbatim>\<open>[2]\<close>.\<close>

definition zeros :: heap where
  "zeros =
     addTuple exampleEnv
       (addTuple exampleEnv (addTuple exampleEnv (cubeWith [(''x'', NUMERIC)]) 0 [Num (Fin 0)])
          0 [Num (Fin 0)])
       0 [Num (Fin 2)]"

text \<open>
  \<^verbatim>\<open>var s = countries.slice([]); s.addDimension("x", Cubico.TEXT)\<close>: the empty array of
  criteria is the array at 7, the slice is the cube at 1 and its store holds the
  references of the records of the source.
\<close>

definition widened :: heap where
  "widened =
     snd (addDimension (snd (slice exampleEnv (withArray countries []) 0 (CriteriaArray 7)))
            1 ''x'' TEXT)"

text \<open>
  Two text dimensions \<^verbatim>\<open>a\<close> and \<^verbatim>\<open>b\<close> with the records \<^verbatim>\<open>["x", "y_7z"]\<close> and \<^verbatim>\<open>["z_7x", "y"]\<close>,
  stored at 2 and 6, the array \<^verbatim>\<open>["a", "b"]\<close> at 9 and the array \<^verbatim>\<open>[]\<close> at 10.
\<close>

definition pairs :: heap where
  "pairs =
     withArray
       (withArray
          (addTuple exampleEnv
             (addTuple exampleEnv (cubeWith [(''a'', TEXT), (''b'', TEXT)]) 0
                [Str ''x'', Str ''y_7z''])
             0 [Str ''z_7x'', Str ''y''])
          [Str ''a'', Str ''b''])
       []"

text \<open>\<^verbatim>\<open>pairs.aggregate(["a", "b"], [])\<close>.\<close>

definition pairsByAB :: "addr result \<times> heap" where
  "pairsByAB = aggregate exampleEnv pairs 0 (GroupByArray 9) 10"

text \<open>
  Three text dimensions \<^verbatim>\<open>a\<close>, \<^verbatim>\<open>b\<close> and \<^verbatim>\<open>c\<close> with the one record \<^verbatim>\<open>["a", "=", "x"]\<close>, stored
  at 2, and the array at 6 that holds the reference of this record.
\<close>

definition triple :: heap where
  "triple =
     withArray
       (addTuple exampleEnv (cubeWith [(''a'', TEXT), (''b'', TEXT), (''c'', TEXT)]) 0
          [Str ''a'', Str ''='', Str ''x''])
       [Ref 2]"

text \<open>
  A text dimension \<^verbatim>\<open>country\<close> and a numeric dimension \<^verbatim>\<open>income\<close> with the records
  \<^verbatim>\<open>["AR", 100]\<close>, \<^verbatim>\<open>["AR", 300]\<close> and \<^verbatim>\<open>["US", 50]\<close>; then the arguments of
  \<^verbatim>\<open>aggregate(["country"], [["sum", "income"]])\<close> and of
  \<^verbatim>\<open>slice([["country", "=", "AR"], ["income", ">", 100]])\<close>.
\<close>

definition incomes :: heap where
  "incomes =
     addTuple exampleEnv
       (addTuple exampleEnv
          (addTuple exampleEnv (cubeWith [(''country'', TEXT), (''income'', NUMERIC)]) 0
             [Str ''AR'', Num (Fin 100)])
          0 [Str ''AR'', Num (Fin 300)])
       0 [Str ''US'', Num (Fin 50)]"

section \<open>Evaluation\<close>

declare natToString.simps [simp del]

lemmas run_defs =
  newCubico_def emptyHeap_def cubeWith_def addDimension_def Cubico_def hasOwnProperty_def
  CubicoDimension_def NUMERIC_def TEXT_def objSet_def objGet_def setCube_def setArray_def
  newArray_def addRecord_def addRecordFromArray_def addTuple_def accumulateRecordValues_def
  accumulateValue_def arrayGet_def exampleEnv_def Let_def js_pow2_def js_max_def
  js_min_def js_sub_def upt_rec natToString.simps recordsOf_def nonNullCount_def
  push_def store_def setDimension_def jsLess_def jsLessEq_def jsPlus_def looseEquals_def
  primitiveEquals_def storeOf_def withArray_def

lemmas slice_defs =
  slice_def sliceFullScan_def compileCriterion_def cloneWithoutStorage_def chosenStorage_def
  getFilter_def operators_def initialSelection_def criteriaList_def

lemmas stat_defs =
  average_def onNumericDimension_def assertNumericDimension_def assertDimension_def
  dimensionNamed_def Cubico_sum_def sumOfSquares_def countUnique_def countUnique_overwritten_def
  covariance_def stdDev_def getDimensionIndex_def squaredDeviations_def deviationProducts_def

lemmas aggregate_defs =
  aggregate_def getDimensionIndex_def assertDimension_def
  dimensionNamed_def aggregateRecord_def getHashCode_def getAggregation_def emptyStatics_def
  sumOf_def averageOf_def countAll_def countOf_def countUniqueOf_def falsy_def numberOf_def

section \<open>Failed insertion\<close>

text \<open>
  C8. \<^verbatim>\<open>addRecord\<close> on a tuple whose length differs from \<^verbatim>\<open>nbrOfDimensions\<close> throws the
  dimensionality error, and the heap after the call is the heap before it: the record
  store, \<^verbatim>\<open>nbrOfRecords\<close>, and the running statistics and value index of every dimension
  are untouched.
\<close>

theorem addRecord_mismatch_atomic:
  "length (arrays h ! record) \<noteq> nbrOfDimensions (cubes h ! this) \<Longrightarrow>
     addRecord E h this record =
       (Throw (DimensionalityMismatch (length (arrays h ! record) > nbrOfDimensions (cubes h ! this))), h)"
  by (simp add: addRecord_def addRecordFromArray_def Let_def jsLess_def)

theorem addRecord_mismatch_atomic_witness:
  "length (arrays nulls ! 6) \<noteq> nbrOfDimensions (cubes nulls ! 0) \<and>
   addRecord exampleEnv nulls 0 6 = (Throw (DimensionalityMismatch True), nulls)"
proof -
  have l: "length (arrays nulls ! 6) = 3"
    by (simp add: nulls_def run_defs)
  have n: "nbrOfDimensions (cubes nulls ! 0) = 1"
    by (simp add: nulls_def run_defs)
  have ne: "length (arrays nulls ! 6) \<noteq> nbrOfDimensions (cubes nulls ! 0)"
    by (simp add: l n)
  show ?thesis
    using addRecord_mismatch_atomic [OF ne, of exampleEnv] ne by (simp add: l n)
qed

section \<open>Slicing by a mapping\<close>

text \<open>
  C1. On the cube with the records \<^verbatim>\<open>["AR"]\<close> and \<^verbatim>\<open>["US"]\<close>, \<^verbatim>\<open>slice({country: "AR"})\<close>
  returns a cube with both records (the mapping is never turned into criteria, so no
  predicate is evaluated), whereas \<^verbatim>\<open>slice([["country", "=", "AR"]])\<close> returns the one
  record whose country is \<^verbatim>\<open>"AR"\<close>.
\<close>

theorem slice_mapping_returns_every_record:
  "fst sliceByMapping = Return 1 \<and>
   nbrOfRecords (cubes (snd sliceByMapping) ! 1) = 2 \<and>
   recordsOf (snd sliceByMapping) 1 = [[Str ''AR''], [Str ''US'']] \<and>
   fst sliceByTuple = Return 1 \<and>
   recordsOf (snd sliceByTuple) 1 = [[Str ''AR'']]"
  by (simp add: sliceByMapping_def sliceByTuple_def countriesWithCriteria_def countries_def run_defs
        slice_defs)

section \<open>The equality slice and the full scan\<close>

text \<open>
  C2. On the cube with the records \<^verbatim>\<open>[null]\<close> and \<^verbatim>\<open>["null"]\<close>, the criterion
  \<^verbatim>\<open>["d", "=", null]\<close> finds the key \<^verbatim>\<open>"null"\<close> in the value index, so \<^verbatim>\<open>slice\<close> scans only
  the record \<^verbatim>\<open>["null"]\<close> and returns no record, whereas the full scan with the same
  predicate returns the record \<^verbatim>\<open>[null]\<close>.
\<close>

theorem equality_slice_on_null_misses_record:
  "fst (slice exampleEnv nulls 0 (CriteriaArray 7)) = Return 1 \<and>
   recordsOf (snd (slice exampleEnv nulls 0 (CriteriaArray 7))) 1 = [] \<and>
   fst (sliceFullScan exampleEnv nulls 0 7) = Return 1 \<and>
   recordsOf (snd (sliceFullScan exampleEnv nulls 0 7)) 1 = [[Null]]"
  by (simp add: nulls_def run_defs slice_defs)

section \<open>Covariance\<close>

text \<open>
  C5. On the cube with the records \<^verbatim>\<open>[1, 1]\<close>, \<^verbatim>\<open>[1, 1]\<close> and \<^verbatim>\<open>[4, 4]\<close> both means are 2, the
  sum of the products of the deviations is 6 and each dimension has 3 non-null values,
  but \<^verbatim>\<open>covariance\<close> returns 3: it divides by the number of distinct values (2), not by
  the number of non-null values, which would give 2.
\<close>

theorem covariance_divides_by_distinct_count:
  "covariance exampleEnv ages 0 ''a'' ''b'' = Return (Fin 3) \<and>
   average exampleEnv ages 0 ''a'' = Return (Fin 2) \<and>
   average exampleEnv ages 0 ''b'' = Return (Fin 2) \<and>
   deviationProducts exampleEnv ages (storage (cubes ages ! 0)) (nbrOfRecords (cubes ages ! 0))
     0 1 (Fin 2) (Fin 2) (Fin 0) = Some (Fin 6) \<and>
   nonNullCount ages 0 0 = 3 \<and> nonNullCount ages 0 1 = 3 \<and>
   js_div (Fin 6) (js_max (Fin (real 3)) (Fin (real 3))) = Fin 2"
  by (simp add: ages_def run_defs stat_defs eval_nat_numeral)

section \<open>Approximate standard deviation\<close>

text \<open>
  C6. On the cube with the records \<^verbatim>\<open>[0]\<close>, \<^verbatim>\<open>[0]\<close> and \<^verbatim>\<open>[2]\<close> there are 3 non-null values,
  their sum is 2 and the sum of their squares is 4, so the formula of the claim gives
  \<open>sqrt (3 \<sqdot> 4 - 2\<^sup>2) / 3\<close>, which is not 1; \<^verbatim>\<open>stdDev(x, true)\<close> returns 1, as it takes the
  number of distinct values (2) for \<open>n\<close>.
\<close>

theorem approximate_stdDev_uses_distinct_count:
  "fst (stdDev exampleEnv zeros 0 ''x'' True) = Return (Fin 1) \<and>
   nonNullCount zeros 0 0 = 3 \<and>
   Cubico_sum zeros 0 ''x'' = Return (Num (Fin 2)) \<and>
   sumOfSquares zeros 0 ''x'' = Return (Fin 4) \<and>
   js_div (js_sqrt (js_sub (js_mul (Fin (real 3)) (Fin 4)) (js_pow2 (Fin 2)))) (Fin (real 3))
     \<noteq> Fin 1"
proof -
  have "sqrt 8 \<noteq> 3"
  proof
    assume "sqrt 8 = 3"
    then have "(sqrt 8)\<^sup>2 = 3\<^sup>2" by simp
    then show False by simp
  qed
  then show ?thesis
    by (simp add: zeros_def run_defs stat_defs)
qed

section \<open>Record width\<close>

text \<open>
  C7. After \<^verbatim>\<open>var s = countries.slice([]); s.addDimension("x", Cubico.TEXT)\<close> the source
  cube still has one dimension and two records, but each of its stored records has
  length 2: the slice holds the same arrays, and \<^verbatim>\<open>addDimension\<close> pushed \<^verbatim>\<open>null\<close> onto them.
\<close>

theorem addDimension_on_slice_widens_source_records:
  "nbrOfDimensions (cubes widened ! 0) = 1 \<and>
   nbrOfRecords (cubes widened ! 0) = 2 \<and>
   recordsOf widened 0 = [[Str ''AR'', Null], [Str ''US'', Null]]"
  by (simp add: widened_def countries_def run_defs slice_defs)

section \<open>The average and the accessor countUnique\<close>

text \<open>
  C3. On the cube with the records \<^verbatim>\<open>[1, 1]\<close>, \<^verbatim>\<open>[1, 1]\<close> and \<^verbatim>\<open>[4, 4]\<close>, \<^verbatim>\<open>average("a")\<close> is 2:
  the sum 6 over the 3 non-null values, which is what the field \<^verbatim>\<open>countUnique\<close> of the
  dimension counts and what the first definition of the accessor \<^verbatim>\<open>countUnique\<close> would
  return. The accessor that the second definition leaves in place returns the number of
  distinct values, 2, so \<^verbatim>\<open>sum("a") / countUnique("a")\<close> is 3 and not the average.
\<close>

theorem average_is_not_sum_over_countUnique:
  "average exampleEnv ages 0 ''a'' = Return (Fin 2) \<and>
   Cubico_sum ages 0 ''a'' = Return (Num (Fin 6)) \<and>
   countUnique ages 0 ''a'' = Return 2 \<and>
   js_div (Fin 6) (Fin (real 2)) = Fin 3 \<and>
   nonNullCount ages 0 0 = 3 \<and>
   countUnique_overwritten ages 0 ''a'' = Return 3 \<and>
   js_div (Fin 6) (Fin (real 3)) = Fin 2"
  by (simp add: ages_def run_defs stat_defs)

section \<open>The groups of an aggregation\<close>

text \<open>
  C4. On the cube with the records \<^verbatim>\<open>["x", "y_7z"]\<close> and \<^verbatim>\<open>["z_7x", "y"]\<close>,
  \<^verbatim>\<open>aggregate(["a", "b"], [])\<close> returns a cube with one row: the two records have
  different values in both dimensions, but \<^verbatim>\<open>getHashCode\<close> gives both the key
  \<^verbatim>\<open>"y_7z_7x_7"\<close>, so the second record joins the group of the first.
\<close>

theorem aggregate_delimiter_collision:
  "recordsOf pairs 0 = [[Str ''x'', Str ''y_7z''], [Str ''z_7x'', Str ''y'']] \<and>
   storeOf pairs 0 = [Ref 2, Ref 6] \<and>
   arrays pairs ! 9 = [Str ''a'', Str ''b''] \<and>
   arrays pairs ! 10 = [] \<and>
   getHashCode exampleEnv (arrays pairs) (Ref 2) [0, 1] = Some ''y_7z_7x_7'' \<and>
   getHashCode exampleEnv (arrays pairs) (Ref 6) [0, 1] = Some ''y_7z_7x_7'' \<and>
   fst pairsByAB = Return 1 \<and>
   nbrOfRecords (cubes (snd pairsByAB) ! 1) = 1 \<and>
   recordsOf (snd pairsByAB) 1 = [[Str ''x'', Str ''y_7z'']]"
  by (simp add: pairsByAB_def pairs_def run_defs aggregate_defs)

end
